theory Spec2Isabelle
  imports Complex_Main "HOL-Library.Multiset"
begin

section \<open>Python values used by the sources\<close>

text \<open>
  A Python \<^verbatim>\<open>float\<close>: a finite value (read as the real number it denotes), one of the two
  infinities, or NaN. Comparison of floats is exact, so \<^verbatim>\<open>a > b\<close> on finite floats is \<open><\<close>
  on the reals they denote; every comparison with NaN is false.
\<close>

datatype pyfloat = Fin real | PosInf | NegInf | NaN

fun float_gt :: "pyfloat \<Rightarrow> pyfloat \<Rightarrow> bool" where
  "float_gt NaN _ = False"
| "float_gt _ NaN = False"
| "float_gt (Fin a) (Fin b) = (b < a)"
| "float_gt PosInf PosInf = False"
| "float_gt PosInf _ = True"
| "float_gt NegInf _ = False"
| "float_gt (Fin a) NegInf = True"
| "float_gt (Fin a) PosInf = False"

text \<open>The exceptions the modelled code can raise.\<close>

datatype error =
    KeyError
  | TypeError
  | ValueError
  | AttributeError
  | IndexError
  | ImportError string
  | LibraryError string

section \<open>\<^verbatim>\<open>lightwood/mixer/gluonts.py\<close>: the early-stop callback\<close>

text \<open>
  \<^verbatim>\<open>class EarlyStop(TrainingHistory)\<close>. The parent class is GluonTS's
  \<^verbatim>\<open>TrainingHistory\<close>, whose constructor creates the two empty histories and whose
  \<^verbatim>\<open>on_validation_epoch_end\<close> appends \<^verbatim>\<open>epoch_loss\<close> to \<^verbatim>\<open>validation_loss_history\<close>
  (the history is append-only). The arguments \<^verbatim>\<open>epoch_no\<close>, \<^verbatim>\<open>training_network\<close> and
  \<^verbatim>\<open>trainer\<close> are only handed to the parent, which ignores them; they are left out.
\<close>

record early_stop =
  patience :: int
  counter :: int
  loss_history :: "pyfloat list"
  validation_loss_history :: "pyfloat list"

definition EarlyStop_init :: "int \<Rightarrow> early_stop" where
  "EarlyStop_init p =
     \<lparr>patience = max 1 p, counter = 0, loss_history = [], validation_loss_history = []\<rparr>"

text \<open>
  The method returns the signal (\<open>True\<close>: continue, \<open>False\<close>: stop) and the updated object.
  \<^verbatim>\<open>h[-1]\<close> and \<^verbatim>\<open>h[-2]\<close> are read only when \<^verbatim>\<open>len(h) > 1\<close>.
\<close>

definition on_validation_epoch_end :: "early_stop \<Rightarrow> pyfloat \<Rightarrow> bool \<times> early_stop" where
  "on_validation_epoch_end self epoch_loss =
     (let h = validation_loss_history self @ [epoch_loss];
          c = (if length h > 1 then
                 (if float_gt (h ! (length h - 1)) (h ! (length h - 2))
                  then counter self + 1
                  else 0)
               else counter self);
          self' = self\<lparr>counter := c, validation_loss_history := h\<rparr>
      in (if c \<ge> patience self' then False else True, self'))"

text \<open>A training run: the callback is called once per validation epoch, in order.\<close>

fun validation_epochs :: "early_stop \<Rightarrow> pyfloat list \<Rightarrow> early_stop" where
  "validation_epochs self [] = self"
| "validation_epochs self (l # ls) =
     validation_epochs (snd (on_validation_epoch_end self l)) ls"

text \<open>
  The number of consecutive worsening epochs at the end of a loss history: how many of
  the last losses were each strictly greater than the one before it.
\<close>

fun worsening_rev :: "pyfloat list \<Rightarrow> nat" where
  "worsening_rev (x # y # ys) = (if float_gt x y then Suc (worsening_rev (y # ys)) else 0)"
| "worsening_rev _ = 0"

definition worsening_run :: "pyfloat list \<Rightarrow> nat" where
  "worsening_run ls = worsening_rev (rev ls)"

section \<open>\<^verbatim>\<open>lightwood/encoders/__init__.py\<close>: the encoder registry\<close>

datatype encoder =
    DatetimeEncoder | Img2VecEncoder | NnAutoEncoder | NumericEncoder
  | InferSentEncoder | RnnEncoder | OneHotEncoder | CategoricalAutoEncoder
  | TsFreshTsEncoder | CesiumTsEncoder | AmplitudeTsEncoder

datatype category = DateTime | Image | Numeric | Text | Categorical | TimeSeries | Audio

text \<open>
  The loaded module: the process-wide flag, what was printed while loading, and the
  attributes of each namespace class of \<^verbatim>\<open>BuiltinEncoders\<close>, in definition order.
\<close>

record encoders_module =
  export_optional_encoder :: bool
  printed :: "string list"
  BUILTIN_ENCODERS :: "category \<Rightarrow> encoder list"

text \<open>The nine unguarded imports at the top of the module, in source order.\<close>

definition required_imports :: "encoder list" where
  "required_imports =
     [DatetimeEncoder, Img2VecEncoder, NnAutoEncoder, NumericEncoder, InferSentEncoder,
      RnnEncoder, OneHotEncoder, CategoricalAutoEncoder, TsFreshTsEncoder]"

definition encoder_name :: "encoder \<Rightarrow> string" where
  "encoder_name e = (case e of
       DatetimeEncoder \<Rightarrow> ''DatetimeEncoder'' | Img2VecEncoder \<Rightarrow> ''Img2VecEncoder''
     | NnAutoEncoder \<Rightarrow> ''NnAutoEncoder'' | NumericEncoder \<Rightarrow> ''NumericEncoder''
     | InferSentEncoder \<Rightarrow> ''InferSentEncoder'' | RnnEncoder \<Rightarrow> ''RnnEncoder''
     | OneHotEncoder \<Rightarrow> ''OneHotEncoder''
     | CategoricalAutoEncoder \<Rightarrow> ''CategoricalAutoEncoder''
     | TsFreshTsEncoder \<Rightarrow> ''TsFreshTsEncoder'' | CesiumTsEncoder \<Rightarrow> ''CesiumTsEncoder''
     | AmplitudeTsEncoder \<Rightarrow> ''AmplitudeTsEncoder'')"

text \<open>
  The \<^verbatim>\<open>try\<close> block: both optional imports, then the flag. The bare \<^verbatim>\<open>except:\<close> catches
  whatever either import raises. The result is the flag and the printed lines.
\<close>

definition try_optional_imports :: "(encoder \<Rightarrow> bool) \<Rightarrow> bool \<times> string list" where
  "try_optional_imports importable =
     (if importable CesiumTsEncoder then
        (if importable AmplitudeTsEncoder then (True, [])
         else (False, [''Time series encoders can't be loaded'']))
      else (False, [''Time series encoders can't be loaded'']))"

definition namespace_classes :: "bool \<Rightarrow> category \<Rightarrow> encoder list" where
  "namespace_classes flag c = (case c of
       DateTime \<Rightarrow> [DatetimeEncoder]
     | Image \<Rightarrow> [Img2VecEncoder, NnAutoEncoder]
     | Numeric \<Rightarrow> [NumericEncoder]
     | Text \<Rightarrow> [InferSentEncoder, RnnEncoder]
     | Categorical \<Rightarrow> [OneHotEncoder, CategoricalAutoEncoder]
     | TimeSeries \<Rightarrow> [TsFreshTsEncoder] @ (if flag then [CesiumTsEncoder] else [])
     | Audio \<Rightarrow> (if flag then [AmplitudeTsEncoder] else []))"

text \<open>
  Loading the module, given which encoder modules can be imported. An unguarded import
  that fails ends the load with its \<^verbatim>\<open>ImportError\<close>.
\<close>

definition load_encoders :: "(encoder \<Rightarrow> bool) \<Rightarrow> error + encoders_module" where
  "load_encoders importable =
     (case filter (\<lambda>e. \<not> importable e) required_imports of
        e # _ \<Rightarrow> Inl (ImportError (encoder_name e))
      | [] \<Rightarrow>
          (let (flag, out) = try_optional_imports importable
           in Inr \<lparr>export_optional_encoder = flag, printed = out,
                   BUILTIN_ENCODERS = namespace_classes flag\<rparr>))"

section \<open>Tables\<close>

text \<open>
  A pandas \<^verbatim>\<open>DataFrame\<close>: its column labels in order, and its rows in order, each row an
  index label and its cells by column label. A cell is a number or a string; \<open>None\<close> is a
  missing cell (pandas's NaN), also what a row gives for a label that is not a column.
  The index labels are of any linearly ordered type (timestamps, positions).
\<close>

datatype val = Num real | Str string

type_synonym 'i row = "'i \<times> (string \<Rightarrow> val option)"

record 'i frame =
  columns :: "string list"
  rows :: "'i row list"

text \<open>The cells of a row under the given columns, in column order.\<close>

definition cells :: "string list \<Rightarrow> 'i row \<Rightarrow> val option list" where
  "cells cols r = map (snd r) cols"

text \<open>
  Keeps the first element of every class of elements with the same key, in order, and
  drops the elements whose key is among \<open>seen\<close>.
\<close>

fun keep_first :: "('a \<Rightarrow> 'k) \<Rightarrow> 'k list \<Rightarrow> 'a list \<Rightarrow> 'a list" where
  "keep_first key seen [] = []"
| "keep_first key seen (x # xs) =
     (if key x \<in> set seen then keep_first key seen xs
      else x # keep_first key (key x # seen) xs)"

text \<open>
  \<^verbatim>\<open>df[cols]\<close> with a list of labels: a new table of exactly these columns; \<^verbatim>\<open>KeyError\<close> when
  a label is not a column.
\<close>

definition select_row :: "string list \<Rightarrow> 'i row \<Rightarrow> 'i row" where
  "select_row cols r = (fst r, \<lambda>c. if c \<in> set cols then snd r c else None)"

definition select_columns :: "string list \<Rightarrow> 'i frame \<Rightarrow> error + 'i frame" where
  "select_columns cols df =
     (if set cols \<subseteq> set (columns df)
      then Inr \<lparr>columns = cols, rows = map (select_row cols) (rows df)\<rparr>
      else Inl KeyError)"

text \<open>
  \<^verbatim>\<open>df[df[g].isin(groups)]\<close>: \<^verbatim>\<open>df[g]\<close> raises \<^verbatim>\<open>KeyError\<close> when \<open>g\<close> is not a column,
  \<^verbatim>\<open>isin(None)\<close> raises \<^verbatim>\<open>TypeError\<close>; otherwise the rows whose cell under \<open>g\<close> is one of
  \<open>groups\<close> are kept, in order.
\<close>

definition filter_isin :: "'i frame \<Rightarrow> string \<Rightarrow> val option list option \<Rightarrow> error + 'i frame" where
  "filter_isin df g groups =
     (if g \<notin> set (columns df) then Inl KeyError
      else (case groups of
              None \<Rightarrow> Inl TypeError
            | Some gs \<Rightarrow> Inr (df\<lparr>rows := filter (\<lambda>r. snd r g \<in> set gs) (rows df)\<rparr>)))"

text \<open>
  \<^verbatim>\<open>pd.concat([a, b])\<close>: the rows of \<open>a\<close>, then the rows of \<open>b\<close>; the columns of \<open>a\<close>, then
  those of \<open>b\<close> that \<open>a\<close> lacks (a row is missing in the columns its table lacked).
\<close>

definition concat_frames :: "'i frame \<Rightarrow> 'i frame \<Rightarrow> 'i frame" where
  "concat_frames a b =
     \<lparr>columns = columns a @ filter (\<lambda>c. c \<notin> set (columns a)) (columns b),
      rows = rows a @ rows b\<rparr>"

text \<open>
  \<^verbatim>\<open>df.sort_index()\<close>: the rows in ascending order of their index label; rows with the
  same label are taken to keep their order.
\<close>

definition sort_index :: "('i::linorder) frame \<Rightarrow> 'i frame" where
  "sort_index df = df\<lparr>rows := sort_key fst (rows df)\<rparr>"

text \<open>
  \<^verbatim>\<open>df.drop_duplicates()\<close>: of the rows with the same cells in every column, the first is
  kept. pandas compares the cells only, never the index labels.
\<close>

definition drop_duplicates :: "'i frame \<Rightarrow> 'i frame" where
  "drop_duplicates df = df\<lparr>rows := keep_first (cells (columns df)) [] (rows df)\<rparr>"

text \<open>\<^verbatim>\<open>df.iloc[:n]\<close>: the first \<open>n\<close> rows.\<close>

definition iloc_upto :: "nat \<Rightarrow> 'i frame \<Rightarrow> 'i frame" where
  "iloc_upto n df = df\<lparr>rows := take n (rows df)\<rparr>"

text \<open>\<^verbatim>\<open>df[g].unique()\<close>: the distinct cells of column \<open>g\<close>, in order of first appearance.\<close>

definition column_unique :: "'i frame \<Rightarrow> string \<Rightarrow> error + val option list" where
  "column_unique df g =
     (if g \<notin> set (columns df) then Inl KeyError
      else Inr (keep_first (\<lambda>v. v) [] (map (\<lambda>r. snd r g) (rows df))))"

text \<open>\<^verbatim>\<open>df[c] = v\<close> with a scalar: every row gets \<open>v\<close> under \<open>c\<close>; \<open>c\<close> is a new last column
  unless it is a column already.\<close>

definition assign_const :: "string \<Rightarrow> val \<Rightarrow> 'i frame \<Rightarrow> 'i frame" where
  "assign_const c v df =
     \<lparr>columns = (if c \<in> set (columns df) then columns df else columns df @ [c]),
      rows = map (\<lambda>r. (fst r, (snd r)(c := Some v))) (rows df)\<rparr>"

section \<open>The forecasting library, as the mixer sees it\<close>

text \<open>
  \<^verbatim>\<open>PandasDataset.from_long_dataframe(df, target=.., item_id=.., freq=..)\<close>: the dataset is
  the long table with the names of its target column and of its item-id column or columns
  and its frequency. \<^verbatim>\<open>item_id\<close> is given as one label (a \<^verbatim>\<open>str\<close>) or as a list of labels.
\<close>

datatype item_id = ItemCol string | ItemCols "string list"


record 'i pandas_dataset =
  ds_frame :: "'i frame"
  ds_target :: string
  ds_item_id :: item_id
  ds_freq :: string

definition from_long_dataframe ::
    "'i frame \<Rightarrow> string \<Rightarrow> item_id \<Rightarrow> string \<Rightarrow> 'i pandas_dataset" where
  "from_long_dataframe df tgt iid freq =
     \<lparr>ds_frame = df, ds_target = tgt, ds_item_id = iid, ds_freq = freq\<rparr>"

text \<open>
  \<^verbatim>\<open>DeepAREstimator(freq=.., prediction_length=.., trainer=Trainer(epochs=..,
  callbacks=[..]))\<close>, and a forecast with its \<^verbatim>\<open>mean\<close> and its \<^verbatim>\<open>quantile(q)\<close>. Quantile
  levels are read as real numbers: the rounding of \<^verbatim>\<open>1 - conf\<close> in floating point is not
  modelled.
\<close>

record estimator =
  est_freq :: string
  prediction_length :: int
  trainer_epochs :: int
  trainer_callbacks :: "early_stop list"

record forecast =
  mean :: "real list"
  quantile :: "real \<Rightarrow> real list"

text \<open>
  What pandas and GluonTS compute is not part of this repository; the mixer is modelled
  for any behaviour of these four operations, each of which may raise:
  \<^verbatim>\<open>df.resample(freq).sum()\<close>,
  \<^verbatim>\<open>df.groupby(by=g).resample(freq).sum().reset_index(level=[0])\<close>,
  \<^verbatim>\<open>estimator.train(ds)\<close> and \<^verbatim>\<open>list(model.predict(ds))\<close>.
\<close>

record ('i, 'm) libs =
  resample_sum :: "string \<Rightarrow> 'i frame \<Rightarrow> error + 'i frame"
  groupby_resample_sum :: "string \<Rightarrow> string \<Rightarrow> 'i frame \<Rightarrow> error + 'i frame"
  estimator_train :: "estimator \<Rightarrow> 'i pandas_dataset \<Rightarrow> error + 'm"
  model_predict :: "'m \<Rightarrow> 'i pandas_dataset \<Rightarrow> error + forecast list"

section \<open>\<^verbatim>\<open>lightwood/mixer/gluonts.py\<close>: the mixer\<close>

record tss_settings =
  order_by :: string
  group_by :: "string list option"

record ts_analysis =
  tss :: tss_settings
  sample_freqs :: "string \<Rightarrow> string option"

text \<open>
  The attributes of a \<^verbatim>\<open>GluonTSMixer\<close>. \<^verbatim>\<open>self.patience\<close> is named \<open>early_stop_patience\<close>
  here, after the constructor's argument. \<^verbatim>\<open>hyperparam_search\<close> is only annotated in the
  class body: it is unset (\<open>None\<close>) until \<^verbatim>\<open>partial_fit\<close> assigns it. \<^verbatim>\<open>stop_after\<close> and
  \<^verbatim>\<open>dtype_dict\<close> are stored and never read by this class; they are left out.
\<close>

record ('i, 'm) mixer =
  stable :: bool
  prepared :: bool
  supports_proba :: bool
  target :: string
  window :: int
  horizon :: int
  n_epochs :: int
  ts_analysis :: ts_analysis
  grouped_by :: "string list"
  model :: "'m option"
  train_cache :: "'i frame option"
  early_stop_patience :: int
  hyperparam_search :: "bool option"

definition truthy_list :: "'a list option \<Rightarrow> bool" where
  "truthy_list l = (case l of None \<Rightarrow> False | Some xs \<Rightarrow> xs \<noteq> [])"

definition GluonTSMixer_init ::
    "string \<Rightarrow> int \<Rightarrow> int \<Rightarrow> ts_analysis \<Rightarrow> int \<Rightarrow> int \<Rightarrow> ('i, 'm) mixer" where
  "GluonTSMixer_init tgt hor win tsa epochs pat =
     \<lparr>stable = True, prepared = False, supports_proba = True, target = tgt, window = win,
      horizon = hor, n_epochs = epochs, ts_analysis = tsa,
      grouped_by = (if \<not> truthy_list (group_by (tss tsa)) then [''__default'']
                    else the (group_by (tss tsa))),
      model = None, train_cache = None, early_stop_patience = pat,
      hyperparam_search = None\<rparr>"

text \<open>
  The locals \<^verbatim>\<open>gby\<close> and \<^verbatim>\<open>keep_cols\<close> of \<^verbatim>\<open>_make_initial_ds\<close> (and \<^verbatim>\<open>gby\<close> of
  \<^verbatim>\<open>__call__\<close>): \<^verbatim>\<open>group_by if group_by else []\<close>, and
  \<^verbatim>\<open>[f'__mdb_original_{oby}', self.target] + [col for col in gby]\<close>.
\<close>

definition gby_of :: "('i, 'm) mixer \<Rightarrow> string list" where
  "gby_of self = (case group_by (tss (ts_analysis self)) of
                    None \<Rightarrow> [] | Some cols \<Rightarrow> cols)"

definition keep_cols :: "('i, 'm) mixer \<Rightarrow> string list" where
  "keep_cols self =
     [''__mdb_original_'' @ order_by (tss (ts_analysis self)), target self] @ gby_of self"

text \<open>
  Lines 125 to 140 of \<^verbatim>\<open>_make_initial_ds\<close>: the table that goes on to de-duplication, and
  the mixer with its cache as the branch leaves it. With no cache yet (\<open>None\<close>),
  subscripting it raises \<^verbatim>\<open>TypeError\<close>, \<^verbatim>\<open>None.drop_duplicates()\<close> raises
  \<^verbatim>\<open>AttributeError\<close>, and \<^verbatim>\<open>pd.concat\<close> drops a \<^verbatim>\<open>None\<close> silently.
\<close>

definition initial_frame ::
    "('i::linorder, 'm) mixer \<Rightarrow> 'i frame option \<Rightarrow> bool \<Rightarrow> val option list option
       \<Rightarrow> (error + 'i frame) \<times> ('i, 'm) mixer" where
  "initial_frame self df train groups =
     (let gby = gby_of self in
      if df = None \<and> \<not> train then
        (case train_cache self of
           None \<Rightarrow> (Inl (if gby \<noteq> [] then TypeError else AttributeError), self)
         | Some cache \<Rightarrow>
             (if gby \<noteq> [] then (filter_isin cache (hd gby) groups, self)
              else (Inr cache, self)))
      else
        (case df of
           None \<Rightarrow> (Inl TypeError, self)
         | Some d \<Rightarrow>
             (case select_columns (keep_cols self) d of
                Inl e \<Rightarrow> (Inl e, self)
              | Inr sub_df \<Rightarrow>
                  (if train then (Inr sub_df, self\<lparr>train_cache := Some sub_df\<rparr>)
                   else if gby \<noteq> [] then
                     (case train_cache self of
                        None \<Rightarrow> (Inl TypeError, self)
                      | Some c \<Rightarrow>
                          (case filter_isin c (hd gby) groups of
                             Inl e \<Rightarrow> (Inl e, self)
                           | Inr cache \<Rightarrow>
                               (Inr (sort_index (concat_frames cache sub_df)), self)))
                   else
                     (case train_cache self of
                        None \<Rightarrow> (Inr (sort_index sub_df), self)
                      | Some cache \<Rightarrow>
                          (Inr (sort_index (concat_frames cache sub_df)), self))))))"

text \<open>
  Lines 142 to 153: de-duplication, resampling (by the first group-by column when there
  is one; otherwise of the whole table, followed by the constant column
  \<^verbatim>\<open>'__default_group'\<close>), and the dataset. In the grouped branch \<^verbatim>\<open>item_id\<close> is the list
  \<^verbatim>\<open>gby\<close>, in the other the string \<^verbatim>\<open>'__default_group'\<close>.
\<close>

definition resampled_dataset ::
    "('i, 'm) libs \<Rightarrow> ('i, 'm) mixer \<Rightarrow> string \<Rightarrow> 'i frame \<Rightarrow> error + 'i pandas_dataset" where
  "resampled_dataset lib self freq df0 =
     (let gby = gby_of self;
          df = drop_duplicates df0 in
      if gby \<noteq> [] then
        (case groupby_resample_sum lib (hd gby) freq df of
           Inl e \<Rightarrow> Inl e
         | Inr df' \<Rightarrow> Inr (from_long_dataframe df' (target self) (ItemCols gby) freq))
      else
        (case resample_sum lib freq df of
           Inl e \<Rightarrow> Inl e
         | Inr df' \<Rightarrow>
             Inr (from_long_dataframe
                    (assign_const ''__default_group'' (Str ''__default_group'') df')
                    (target self) (ItemCol ''__default_group'') freq)))"

text \<open>
  \<^verbatim>\<open>_make_initial_ds(self, df=None, train=False, groups=None)\<close>. The frequency is
  \<^verbatim>\<open>self.ts_analysis['sample_freqs']['__default']\<close>, a \<^verbatim>\<open>KeyError\<close> when the key is absent.
  An exception leaves the mixer as it is at that point.
\<close>

definition make_initial_ds ::
    "('i::linorder, 'm) libs \<Rightarrow> ('i, 'm) mixer \<Rightarrow> 'i frame option \<Rightarrow> bool
       \<Rightarrow> val option list option \<Rightarrow> (error + 'i pandas_dataset) \<times> ('i, 'm) mixer" where
  "make_initial_ds lib self df train groups =
     (case sample_freqs (ts_analysis self) ''__default'' of
        None \<Rightarrow> (Inl KeyError, self)
      | Some freq \<Rightarrow>
          (case initial_frame self df train groups of
             (Inl e, self') \<Rightarrow> (Inl e, self')
           | (Inr df0, self') \<Rightarrow> (resampled_dataset lib self' freq df0, self')))"

text \<open>
  Modelled from the spec: the encoded datasets of \<^verbatim>\<open>lightwood.data.encoded_ds\<close>, which
  expose "a tabular \<^verbatim>\<open>data_frame\<close> view and a length/shape accessor (for both a single
  dataset and a concatenation of datasets)". The frame of a concatenation is the
  concatenation of the frames of its parts, and its \<^verbatim>\<open>encoded_ds_lenghts\<close> are the lengths
  of its parts. A concatenation of no datasets is given the empty table.
\<close>

datatype 'i encoded_ds = EncodedDs "'i frame" | ConcatedEncodedDs "'i encoded_ds list"

fun data_frame :: "'i encoded_ds \<Rightarrow> 'i frame" where
  "data_frame (EncodedDs df) = df"
| "data_frame (ConcatedEncodedDs dss) =
     (case map data_frame dss of
        [] \<Rightarrow> \<lparr>columns = [], rows = []\<rparr>
      | f # fs \<Rightarrow> foldl concat_frames f fs)"

fun ds_len :: "'i encoded_ds \<Rightarrow> nat" where
  "ds_len (EncodedDs df) = length (rows df)"
| "ds_len (ConcatedEncodedDs dss) = sum_list (map ds_len dss)"

text \<open>
  \<^verbatim>\<open>fit(train_data, dev_data)\<close>: the result is the exception raised, if any, and the mixer
  as the call leaves it. The logging calls are left out.
\<close>

definition fit ::
    "('i::linorder, 'm) libs \<Rightarrow> ('i, 'm) mixer \<Rightarrow> 'i encoded_ds \<Rightarrow> 'i encoded_ds
       \<Rightarrow> error option \<times> ('i, 'm) mixer" where
  "fit lib self train_data dev_data =
     (let cat_ds = ConcatedEncodedDs [train_data, dev_data] in
      case make_initial_ds lib self (Some (data_frame cat_ds)) True None of
        (Inl e, self1) \<Rightarrow> (Some e, self1)
      | (Inr train_ds, self1) \<Rightarrow>
          (let est = \<lparr>est_freq = ds_freq train_ds, prediction_length = horizon self1,
                      trainer_epochs = n_epochs self1,
                      trainer_callbacks = [EarlyStop_init (early_stop_patience self1)]\<rparr>
           in case estimator_train lib est train_ds of
                Inl e \<Rightarrow> (Some e, self1)
              | Inr m \<Rightarrow> (None, self1\<lparr>model := Some m\<rparr>)))"

text \<open>
  \<^verbatim>\<open>partial_fit(train_data, dev_data)\<close>: the flag, \<^verbatim>\<open>self.fit(dev_data, train_data)\<close>, and
  \<^verbatim>\<open>self.prepared = True\<close> when \<^verbatim>\<open>fit\<close> has returned.
\<close>

definition partial_fit ::
    "('i::linorder, 'm) libs \<Rightarrow> ('i, 'm) mixer \<Rightarrow> 'i encoded_ds \<Rightarrow> 'i encoded_ds
       \<Rightarrow> error option \<times> ('i, 'm) mixer" where
  "partial_fit lib self train_data dev_data =
     (case fit lib (self\<lparr>hyperparam_search := Some False\<rparr>) dev_data train_data of
        (Some e, self1) \<Rightarrow> (Some e, self1)
      | (None, self1) \<Rightarrow> (None, self1\<lparr>prepared := True\<rparr>))"

text \<open>
  \<^verbatim>\<open>args.fixed_confidence if args.fixed_confidence else 0.9\<close>: \<^verbatim>\<open>None\<close> and zero are the
  falsy values of an optional number.
\<close>

record prediction_arguments =
  fixed_confidence :: "real option"

definition conf_of :: "prediction_arguments \<Rightarrow> real" where
  "conf_of args = (case fixed_confidence args of
                     None \<Rightarrow> 9 / 10
                   | Some c \<Rightarrow> if c \<noteq> 0 then c else 9 / 10)"

text \<open>A row of the output table \<^verbatim>\<open>ydf\<close>.\<close>

record 'i forecast_row =
  prediction :: "real list"
  lower :: "real list"
  upper :: "real list"
  index :: 'i
  confidence :: real

text \<open>\<^verbatim>\<open>groups = ds.data_frame[gby[0]].unique() if gby else None\<close>.\<close>

definition call_groups ::
    "('i, 'm) mixer \<Rightarrow> 'i frame \<Rightarrow> error + val option list option" where
  "call_groups self df =
     (let gby = gby_of self in
      if gby \<noteq> [] then
        (case column_unique df (hd gby) of Inl e \<Rightarrow> Inl e | Inr gs \<Rightarrow> Inr (Some gs))
      else Inr None)"

text \<open>\<^verbatim>\<open>df = ds.data_frame.iloc[:idx] if idx != 0 else None\<close>.\<close>

definition history :: "'i frame \<Rightarrow> nat \<Rightarrow> 'i frame option" where
  "history df idx = (if idx \<noteq> 0 then Some (iloc_upto idx df) else None)"

text \<open>The dataset of one iteration: \<^verbatim>\<open>input_ds = self._make_initial_ds(df, groups=groups)\<close>.\<close>

definition input_ds ::
    "('i::linorder, 'm) libs \<Rightarrow> ('i, 'm) mixer \<Rightarrow> 'i frame \<Rightarrow> val option list option \<Rightarrow> nat
       \<Rightarrow> error + 'i pandas_dataset" where
  "input_ds lib self df groups idx =
     fst (make_initial_ds lib self (history df idx) False groups)"

text \<open>
  The body of the loop for one \<open>idx\<close>: the first forecast of the model's prediction
  (\<^verbatim>\<open>AttributeError\<close> without a model, \<^verbatim>\<open>IndexError\<close> when the prediction is empty), and
  the row written to \<^verbatim>\<open>ydf\<close>.
\<close>

definition predict_row ::
    "('i::linorder, 'm) libs \<Rightarrow> ('i, 'm) mixer \<Rightarrow> 'i frame \<Rightarrow> val option list option
       \<Rightarrow> real \<Rightarrow> nat \<Rightarrow> error + 'i forecast_row" where
  "predict_row lib self df groups conf idx =
     (case input_ds lib self df groups idx of
        Inl e \<Rightarrow> Inl e
      | Inr ds \<Rightarrow>
          (case model self of
             None \<Rightarrow> Inl AttributeError
           | Some m \<Rightarrow>
               (case model_predict lib m ds of
                  Inl e \<Rightarrow> Inl e
                | Inr [] \<Rightarrow> Inl IndexError
                | Inr (forecasts # _) \<Rightarrow>
                    Inr \<lparr>prediction = mean forecasts,
                         lower = quantile forecasts (1 - conf),
                         upper = quantile forecasts conf,
                         index = fst (rows df ! idx),
                         confidence = conf\<rparr>)))"

text \<open>\<^verbatim>\<open>for idx in range(length)\<close>: the first exception ends the loop and the call.\<close>

fun predict_rows ::
    "('i::linorder, 'm) libs \<Rightarrow> ('i, 'm) mixer \<Rightarrow> 'i frame \<Rightarrow> val option list option
       \<Rightarrow> real \<Rightarrow> nat list \<Rightarrow> error + 'i forecast_row list" where
  "predict_rows lib self df groups conf [] = Inr []"
| "predict_rows lib self df groups conf (idx # idxs) =
     (case predict_row lib self df groups conf idx of
        Inl e \<Rightarrow> Inl e
      | Inr r \<Rightarrow>
          (case predict_rows lib self df groups conf idxs of
             Inl e \<Rightarrow> Inl e
           | Inr rs \<Rightarrow> Inr (r # rs)))"

text \<open>
  \<^verbatim>\<open>__call__(self, ds, args)\<close>. \<^verbatim>\<open>ydf['index'] = ds.data_frame.index\<close> needs as many index
  labels as \<^verbatim>\<open>length\<close>, a \<^verbatim>\<open>ValueError\<close> otherwise (with the datasets modelled above the two
  numbers always agree).
\<close>

definition call ::
    "('i::linorder, 'm) libs \<Rightarrow> ('i, 'm) mixer \<Rightarrow> 'i encoded_ds \<Rightarrow> prediction_arguments
       \<Rightarrow> error + 'i forecast_row list" where
  "call lib self ds args =
     (let length = ds_len ds;
          df = data_frame ds in
      if length \<noteq> List.length (rows df) then Inl ValueError
      else
        (let conf = conf_of args in
         case call_groups self df of
           Inl e \<Rightarrow> Inl e
         | Inr groups \<Rightarrow> predict_rows lib self df groups conf [0..<length]))"

section \<open>The training branch with tables as objects\<close>





section \<open>Notions used to state the properties\<close>

text \<open>
  The words of the specification for \<^verbatim>\<open>partial_fit(a, b)\<close>: "calling \<^verbatim>\<open>fit(b, a)\<close>
  followed by marking the mixer prepared". When \<^verbatim>\<open>fit\<close> raises, nothing follows it.
\<close>

definition fit_swapped_then_prepared ::
    "('i::linorder, 'm) libs \<Rightarrow> ('i, 'm) mixer \<Rightarrow> 'i encoded_ds \<Rightarrow> 'i encoded_ds
       \<Rightarrow> error option \<times> ('i, 'm) mixer" where
  "fit_swapped_then_prepared lib self a b =
     (case fit lib self b a of
        (Some e, self1) \<Rightarrow> (Some e, self1)
      | (None, self1) \<Rightarrow> (None, self1\<lparr>prepared := True\<rparr>))"



text \<open>
  \<open>reduces key f S xs ys\<close>: the list \<open>ys\<close> is \<open>xs\<close> without some of its elements \<open>x\<close>,
  each of which has the key of an element \<open>y\<close> that is in \<open>S\<close> or occurs earlier in \<open>xs\<close>
  and has \<open>f y \<le> f x\<close>. Two tables are the same but for duplicates when they have the
  same columns and the rows of the second are so obtained from those of the first, for
  the index label as \<open>f\<close> and the cells in any columns as key.
\<close>

inductive reduces :: "('a \<Rightarrow> 'k) \<Rightarrow> ('a \<Rightarrow> 'l::linorder) \<Rightarrow> 'a set \<Rightarrow> 'a list \<Rightarrow> 'a list \<Rightarrow> bool"
  for key :: "'a \<Rightarrow> 'k" and f :: "'a \<Rightarrow> 'l::linorder" where
  nil: "reduces key f S [] []"
| keep: "reduces key f (insert x S) xs ys \<Longrightarrow> reduces key f S (x # xs) (x # ys)"
| drop: "y \<in> S \<Longrightarrow> key y = key x \<Longrightarrow> f y \<le> f x \<Longrightarrow> reduces key f S xs ys
         \<Longrightarrow> reduces key f S (x # xs) ys"



section \<open>A concrete configuration\<close>

text \<open>
  An instance of the library operations and of the mixer for concrete runs: resampling
  returns the table it is given, training returns the number of rows it saw, and a
  prediction is one forecast whose mean is the model and whose quantile at \<open>q\<close> is \<open>q\<close>.
  The tables have the columns \<^verbatim>\<open>__mdb_original_t\<close>, \<^verbatim>\<open>y\<close>, \<^verbatim>\<open>g\<close> and \<^verbatim>\<open>h\<close>;
  the mixer forecasts \<^verbatim>\<open>y\<close> ordered by \<^verbatim>\<open>t\<close> at frequency \<^verbatim>\<open>D\<close>.
\<close>

definition example_libs :: "(nat, nat) libs" where
  "example_libs =
     \<lparr>resample_sum = (\<lambda>freq df. Inr df),
      groupby_resample_sum = (\<lambda>g freq df. Inr df),
      estimator_train = (\<lambda>est ds. Inr (length (rows (ds_frame ds)))),
      model_predict = (\<lambda>m ds. Inr [\<lparr>mean = [real m], quantile = (\<lambda>q. [q])\<rparr>])\<rparr>"

definition example_analysis :: "string list option \<Rightarrow> ts_analysis" where
  "example_analysis groups =
     \<lparr>tss = \<lparr>order_by = ''t'', group_by = groups\<rparr>,
      sample_freqs = [''__default'' \<mapsto> ''D'']\<rparr>"

definition example_mixer :: "string list option \<Rightarrow> (nat, nat) mixer" where
  "example_mixer groups = GluonTSMixer_init ''y'' 2 5 (example_analysis groups) 10 3"

definition example_row :: "nat \<Rightarrow> real \<Rightarrow> real \<Rightarrow> string \<Rightarrow> nat row" where
  "example_row i t y g =
     (i, [''__mdb_original_t'' \<mapsto> Num t, ''y'' \<mapsto> Num y, ''g'' \<mapsto> Str g, ''h'' \<mapsto> Str ''x''])"

definition example_table :: "nat row list \<Rightarrow> nat frame" where
  "example_table rs = \<lparr>columns = [''__mdb_original_t'', ''y'', ''g'', ''h''], rows = rs\<rparr>"

definition example_trained :: "string list option \<Rightarrow> nat row list \<Rightarrow> (nat, nat) mixer" where
  "example_trained groups rs =
     (example_mixer groups)
       \<lparr>model := Some 7,
        train_cache := Some \<lparr>columns = keep_cols (example_mixer groups),
                             rows = map (select_row (keep_cols (example_mixer groups))) rs\<rparr>\<rparr>"

section \<open>The early-stop policy: patience, counter and signal\<close>

lemma validation_epochs_snoc:
  "validation_epochs s (ls @ [x]) = snd (on_validation_epoch_end (validation_epochs s ls) x)"
  by (induction ls arbitrary: s) simp_all

lemma on_validation_epoch_end_patience:
  "patience (snd (on_validation_epoch_end s x)) = patience s"
  by (simp add: on_validation_epoch_end_def Let_def)

lemma validation_epochs_patience: "patience (validation_epochs s ls) = patience s"
  by (induction ls arbitrary: s) (simp_all add: on_validation_epoch_end_patience)

lemma on_validation_epoch_end_history:
  "validation_loss_history (snd (on_validation_epoch_end s x)) = validation_loss_history s @ [x]"
  by (simp add: on_validation_epoch_end_def Let_def)

lemma validation_epochs_history:
  "validation_loss_history (validation_epochs s ls) = validation_loss_history s @ ls"
  by (induction ls arbitrary: s) (simp_all add: on_validation_epoch_end_history)

lemma worsening_run_snoc:
  "worsening_run (ls @ [x]) =
     (if ls \<noteq> [] \<and> float_gt x (last ls) then Suc (worsening_run ls) else 0)"
proof (cases ls rule: rev_cases)
  case Nil
  then show ?thesis by (simp add: worsening_run_def)
next
  case (snoc ys y)
  then show ?thesis by (simp add: worsening_run_def)
qed

text \<open>
  One call in a state whose history is \<open>ls\<close>: the counter the call leaves, provided the
  counter is zero whenever the history is still empty.
\<close>

lemma on_validation_epoch_end_counter:
  assumes "validation_loss_history s = ls" and "ls = [] \<Longrightarrow> counter s = 0"
  shows "counter (snd (on_validation_epoch_end s x)) =
           (if ls \<noteq> [] \<and> float_gt x (last ls) then counter s + 1 else 0)"
proof (cases ls rule: rev_cases)
  case Nil
  with assms show ?thesis by (simp add: on_validation_epoch_end_def Let_def)
next
  case (snoc ys y)
  with assms(1) show ?thesis
    by (simp add: on_validation_epoch_end_def Let_def nth_append)
qed

lemma validation_epochs_counter:
  "counter (validation_epochs (EarlyStop_init p) ls) = int (worsening_run ls)"
proof (induction ls rule: rev_induct)
  case Nil
  show ?case by (simp add: EarlyStop_init_def worsening_run_def)
next
  case (snoc x xs)
  let ?s = "validation_epochs (EarlyStop_init p) xs"
  have h: "validation_loss_history ?s = xs"
    by (simp add: validation_epochs_history EarlyStop_init_def)
  have z: "xs = [] \<Longrightarrow> counter ?s = 0"
    by (simp add: EarlyStop_init_def)
  show ?case
    by (simp add: validation_epochs_snoc on_validation_epoch_end_counter [OF h z]
        worsening_run_snoc snoc.IH)
qed

lemma on_validation_epoch_end_signal:
  "fst (on_validation_epoch_end s x) \<longleftrightarrow>
     counter (snd (on_validation_epoch_end s x)) < patience s"
  by (auto simp add: on_validation_epoch_end_def Let_def)

text \<open>
  C1. For every constructor argument \<open>p\<close>, every history \<open>ls\<close> of earlier validation epochs
  and every new loss \<open>x\<close>: the threshold is \<open>max 1 p\<close>, so at least 1; the call appends \<open>x\<close>
  to the history; it increments the counter when \<open>x\<close> is strictly greater than the
  preceding loss and resets it to zero otherwise (a tie, an improvement, or no preceding
  loss); it returns \<open>True\<close> exactly when the new counter is below the threshold and \<open>False\<close>
  once the counter has reached it; and the counter is the number of consecutive
  worsening epochs at the end of the history.
\<close>

theorem early_stop_policy:
  fixes p :: int and ls :: "pyfloat list" and x :: pyfloat
  defines "s \<equiv> validation_epochs (EarlyStop_init p) ls"
  defines "r \<equiv> on_validation_epoch_end s x"
  shows "patience (snd r) = max 1 p \<and> 1 \<le> patience (snd r)
       \<and> validation_loss_history (snd r) = ls @ [x]
       \<and> counter (snd r) = (if ls \<noteq> [] \<and> float_gt x (last ls) then counter s + 1 else 0)
       \<and> counter (snd r) = int (worsening_run (ls @ [x]))
       \<and> (fst r = True \<longleftrightarrow> counter (snd r) < patience (snd r))
       \<and> (fst r = False \<longleftrightarrow> counter (snd r) \<ge> patience (snd r))"
proof -
  have h: "validation_loss_history s = ls"
    by (simp add: s_def validation_epochs_history EarlyStop_init_def)
  have z: "ls = [] \<Longrightarrow> counter s = 0"
    by (simp add: s_def EarlyStop_init_def)
  have pat: "patience s = max 1 p"
    by (simp add: s_def validation_epochs_patience EarlyStop_init_def)
  have p1: "patience (snd r) = max 1 p"
    by (simp add: r_def on_validation_epoch_end_patience pat)
  have hist: "validation_loss_history (snd r) = ls @ [x]"
    by (simp add: r_def on_validation_epoch_end_history h)
  have cnt: "counter (snd r) = (if ls \<noteq> [] \<and> float_gt x (last ls) then counter s + 1 else 0)"
    unfolding r_def by (rule on_validation_epoch_end_counter [OF h z])
  have run: "counter (snd r) = int (worsening_run (ls @ [x]))"
    using validation_epochs_counter [of p "ls @ [x]"]
    by (simp add: r_def s_def validation_epochs_snoc)
  have sig: "fst r \<longleftrightarrow> counter (snd r) < patience (snd r)"
    using on_validation_epoch_end_signal [of s x]
    by (simp add: r_def on_validation_epoch_end_patience)
  from p1 hist cnt run sig show ?thesis by auto
qed

text \<open>
  With patience 2 and the losses 1.0, 2.0, 3.0: the second epoch (first worsening) signals
  continue with counter 1, the third (second worsening) signals stop with counter 2.
\<close>

theorem early_stop_policy_witness:
  "counter (snd (on_validation_epoch_end
       (validation_epochs (EarlyStop_init 2) [Fin 1, Fin 2]) (Fin 3))) = 2
   \<and> fst (on_validation_epoch_end
       (validation_epochs (EarlyStop_init 2) [Fin 1, Fin 2]) (Fin 3)) = False
   \<and> patience (snd (on_validation_epoch_end
       (validation_epochs (EarlyStop_init 2) [Fin 1, Fin 2]) (Fin 3))) = 2
   \<and> validation_loss_history (snd (on_validation_epoch_end
       (validation_epochs (EarlyStop_init 2) [Fin 1, Fin 2]) (Fin 3))) = [Fin 1, Fin 2, Fin 3]"
  using early_stop_policy [of 2 "[Fin 1, Fin 2]" "Fin 3"]
  by (simp add: worsening_run_def)

section \<open>The encoder registry under missing optional dependencies\<close>

lemma load_encoders_required:
  assumes "\<forall>e \<in> set required_imports. importable e"
  shows "load_encoders importable =
           Inr \<lparr>export_optional_encoder = fst (try_optional_imports importable),
                printed = snd (try_optional_imports importable),
                BUILTIN_ENCODERS = namespace_classes (fst (try_optional_imports importable))\<rparr>"
proof -
  from assms have "filter (\<lambda>e. \<not> importable e) required_imports = []"
    by (simp add: filter_empty_conv)
  then show ?thesis
    by (simp add: load_encoders_def case_prod_beta)
qed

text \<open>
  C9. Provided the nine unguarded imports succeed, the module loads whatever the two
  optional imports do. When one of them fails, the flag is false, the warning is
  the one printed line, \<open>TimeSeries\<close> holds \<open>TsFreshTsEncoder\<close> only, \<open>Audio\<close> is empty and
  every other namespace is as in a full load; when both succeed, the flag is true,
  nothing is printed, and both gated classes are present.
\<close>

theorem optional_encoders_gated:
  assumes "\<forall>e \<in> set required_imports. importable e"
  shows "\<exists>m. load_encoders importable = Inr m
       \<and> (export_optional_encoder m \<longleftrightarrow> importable CesiumTsEncoder \<and> importable AmplitudeTsEncoder)
       \<and> printed m = (if export_optional_encoder m then []
                       else [''Time series encoders can't be loaded''])
       \<and> BUILTIN_ENCODERS m TimeSeries =
           (if export_optional_encoder m then [TsFreshTsEncoder, CesiumTsEncoder]
            else [TsFreshTsEncoder])
       \<and> BUILTIN_ENCODERS m Audio =
           (if export_optional_encoder m then [AmplitudeTsEncoder] else [])
       \<and> BUILTIN_ENCODERS m DateTime = [DatetimeEncoder]
       \<and> BUILTIN_ENCODERS m Image = [Img2VecEncoder, NnAutoEncoder]
       \<and> BUILTIN_ENCODERS m Numeric = [NumericEncoder]
       \<and> BUILTIN_ENCODERS m Text = [InferSentEncoder, RnnEncoder]
       \<and> BUILTIN_ENCODERS m Categorical = [OneHotEncoder, CategoricalAutoEncoder]"
  unfolding load_encoders_required [OF assms]
  by (simp add: try_optional_imports_def namespace_classes_def)

text \<open>
  A load in which the audio encoder cannot be imported: the module loads, the flag is
  false, and only the two gated classes are missing.
\<close>

theorem optional_encoders_gated_witness:
  "\<exists>m. load_encoders (\<lambda>e. e \<noteq> AmplitudeTsEncoder) = Inr m
     \<and> \<not> export_optional_encoder m
     \<and> printed m = [''Time series encoders can't be loaded'']
     \<and> BUILTIN_ENCODERS m TimeSeries = [TsFreshTsEncoder]
     \<and> BUILTIN_ENCODERS m Audio = []
     \<and> BUILTIN_ENCODERS m Text = [InferSentEncoder, RnnEncoder]"
proof -
  have req: "\<forall>e \<in> set required_imports. (\<lambda>e. e \<noteq> AmplitudeTsEncoder) e"
    by (simp add: required_imports_def)
  from optional_encoders_gated [OF req] show ?thesis
    by auto
qed

section \<open>Encoded datasets\<close>



section \<open>Attributes the Dataset Builder and the call do not read\<close>

text \<open>
  \<^verbatim>\<open>_make_initial_ds\<close>, \<^verbatim>\<open>fit\<close> and \<^verbatim>\<open>__call__\<close> neither read nor write
  \<^verbatim>\<open>hyperparam_search\<close> and \<^verbatim>\<open>prepared\<close>, and what the builder makes of a table does
  not depend on the cache it has stored.
\<close>

lemma gby_of_flags [simp]:
  "gby_of (self\<lparr>hyperparam_search := h\<rparr>) = gby_of self"
  "gby_of (self\<lparr>prepared := b\<rparr>) = gby_of self"
  by (simp_all add: gby_of_def)

lemma keep_cols_flags [simp]:
  "keep_cols (self\<lparr>hyperparam_search := h\<rparr>) = keep_cols self"
  "keep_cols (self\<lparr>prepared := b\<rparr>) = keep_cols self"
  by (simp_all add: keep_cols_def)

lemma initial_frame_hyperparam:
  "initial_frame (self\<lparr>hyperparam_search := h\<rparr>) df train groups =
     (fst (initial_frame self df train groups),
      (snd (initial_frame self df train groups))\<lparr>hyperparam_search := h\<rparr>)"
  by (simp add: initial_frame_def Let_def split: option.splits sum.splits)

lemma initial_frame_prepared:
  "initial_frame (self\<lparr>prepared := h\<rparr>) df train groups =
     (fst (initial_frame self df train groups),
      (snd (initial_frame self df train groups))\<lparr>prepared := h\<rparr>)"
  by (simp add: initial_frame_def Let_def split: option.splits sum.splits)

lemma resampled_dataset_flags [simp]:
  "resampled_dataset lib (self\<lparr>hyperparam_search := h\<rparr>) = resampled_dataset lib self"
  "resampled_dataset lib (self\<lparr>prepared := b\<rparr>) = resampled_dataset lib self"
  by (simp_all add: resampled_dataset_def fun_eq_iff Let_def split: sum.splits)

lemma make_initial_ds_hyperparam:
  "make_initial_ds lib (self\<lparr>hyperparam_search := h\<rparr>) df train groups =
     (fst (make_initial_ds lib self df train groups),
      (snd (make_initial_ds lib self df train groups))\<lparr>hyperparam_search := h\<rparr>)"
  by (simp add: make_initial_ds_def initial_frame_hyperparam split: option.splits sum.splits prod.splits)

lemma make_initial_ds_prepared:
  "make_initial_ds lib (self\<lparr>prepared := h\<rparr>) df train groups =
     (fst (make_initial_ds lib self df train groups),
      (snd (make_initial_ds lib self df train groups))\<lparr>prepared := h\<rparr>)"
  by (simp add: make_initial_ds_def initial_frame_prepared split: option.splits sum.splits prod.splits)

lemma fit_hyperparam:
  "fit lib (self\<lparr>hyperparam_search := h\<rparr>) a b =
     (fst (fit lib self a b), (snd (fit lib self a b))\<lparr>hyperparam_search := h\<rparr>)"
  by (simp add: fit_def make_initial_ds_hyperparam Let_def split: option.splits sum.splits prod.splits)

lemma call_flags:
  "call lib (self\<lparr>hyperparam_search := h\<rparr>) ds args = call lib self ds args"
  "call lib (self\<lparr>prepared := b\<rparr>) ds args = call lib self ds args"
proof -
  have i1: "\<And>df groups idx. input_ds lib (self\<lparr>hyperparam_search := h\<rparr>) df groups idx
              = input_ds lib self df groups idx"
    by (simp add: input_ds_def make_initial_ds_hyperparam)
  have i2: "\<And>df groups idx. input_ds lib (self\<lparr>prepared := b\<rparr>) df groups idx
              = input_ds lib self df groups idx"
    by (simp add: input_ds_def make_initial_ds_prepared)
  have r1: "\<And>df groups conf idx.
              predict_row lib (self\<lparr>hyperparam_search := h\<rparr>) df groups conf idx
              = predict_row lib self df groups conf idx"
    by (simp add: predict_row_def i1 split: sum.splits option.splits list.splits)
  have r2: "\<And>df groups conf idx.
              predict_row lib (self\<lparr>prepared := b\<rparr>) df groups conf idx
              = predict_row lib self df groups conf idx"
    by (simp add: predict_row_def i2 split: sum.splits option.splits list.splits)
  have p1: "\<And>df groups conf idxs.
              predict_rows lib (self\<lparr>hyperparam_search := h\<rparr>) df groups conf idxs
              = predict_rows lib self df groups conf idxs"
    subgoal for df groups conf idxs by (induction idxs) (simp_all add: r1 split: sum.splits)
    done
  have p2: "\<And>df groups conf idxs.
              predict_rows lib (self\<lparr>prepared := b\<rparr>) df groups conf idxs
              = predict_rows lib self df groups conf idxs"
    subgoal for df groups conf idxs by (induction idxs) (simp_all add: r2 split: sum.splits)
    done
  show "call lib (self\<lparr>hyperparam_search := h\<rparr>) ds args = call lib self ds args"
    by (simp add: call_def call_groups_def p1 Let_def split: sum.splits)
  show "call lib (self\<lparr>prepared := b\<rparr>) ds args = call lib self ds args"
    by (simp add: call_def call_groups_def p2 Let_def split: sum.splits)
qed

lemma gby_of_cache [simp]: "gby_of (self\<lparr>train_cache := c\<rparr>) = gby_of self"
  by (simp add: gby_of_def)

lemma keep_cols_cache [simp]: "keep_cols (self\<lparr>train_cache := c\<rparr>) = keep_cols self"
  by (simp add: keep_cols_def gby_of_def)

lemma resampled_dataset_cache [simp]:
  "resampled_dataset lib (self\<lparr>train_cache := c\<rparr>) = resampled_dataset lib self"
  by (simp add: resampled_dataset_def fun_eq_iff Let_def gby_of_def split: sum.splits)


section \<open>Runs of the concrete configuration\<close>

lemma example_keep_cols [simp]:
  "keep_cols (example_mixer None) = [''__mdb_original_t'', ''y'']"
  "keep_cols (example_mixer (Some [''g''])) = [''__mdb_original_t'', ''y'', ''g'']"
  "keep_cols (example_mixer (Some [''g'', ''h''])) = [''__mdb_original_t'', ''y'', ''g'', ''h'']"
  by (simp_all add: keep_cols_def gby_of_def example_mixer_def GluonTSMixer_init_def example_analysis_def)

lemma example_gby [simp]:
  "gby_of (example_mixer gs) = (case gs of None \<Rightarrow> [] | Some cols \<Rightarrow> cols)"
  by (simp add: gby_of_def example_mixer_def GluonTSMixer_init_def example_analysis_def)

lemma example_freq [simp]:
  "sample_freqs (ts_analysis (example_mixer gs)) ''__default'' = Some ''D''"
  by (simp add: example_mixer_def GluonTSMixer_init_def example_analysis_def)

lemma example_target [simp]: "target (example_mixer gs) = ''y''"
  by (simp add: example_mixer_def GluonTSMixer_init_def)

lemmas run_defs = make_initial_ds_def initial_frame_def select_columns_def example_table_def
  concat_frames_def resampled_dataset_def example_libs_def from_long_dataframe_def
  drop_duplicates_def assign_const_def Let_def cells_def select_row_def example_row_def
  filter_isin_def sort_index_def

lemma example_trained_simps [simp]:
  "gby_of (example_trained gs rs) = (case gs of None \<Rightarrow> [] | Some cols \<Rightarrow> cols)"
  "keep_cols (example_trained gs rs) = keep_cols (example_mixer gs)"
  "sample_freqs (ts_analysis (example_trained gs rs)) ''__default'' = Some ''D''"
  "model (example_trained gs rs) = Some 7"
  "target (example_trained gs rs) = ''y''"
  "train_cache (example_trained gs rs) =
     Some \<lparr>columns = keep_cols (example_mixer gs),
           rows = map (select_row (keep_cols (example_mixer gs))) rs\<rparr>"
  by (simp_all add: example_trained_def gby_of_def keep_cols_def example_mixer_def
      GluonTSMixer_init_def example_analysis_def)


section \<open>Incremental re-fit\<close>

lemma partial_fit_result: "fst (partial_fit lib self a b) = fst (fit lib self b a)"
  by (cases "fit lib self b a") (simp add: partial_fit_def fit_hyperparam split: option.splits)

text \<open>
  C2. For all encoded datasets \<open>a\<close> and \<open>b\<close> and every mixer, \<^verbatim>\<open>partial_fit(a, b)\<close> raises
  exactly when \<^verbatim>\<open>fit(b, a)\<close> does, leaves the model and the Series Cache that
  \<^verbatim>\<open>fit(b, a)\<close> leaves, and has set the prepared flag when it returns. Its final state is
  the one of "\<^verbatim>\<open>fit(b, a)\<close>, then mark prepared" in every attribute but
  \<^verbatim>\<open>hyperparam_search\<close>, which \<^verbatim>\<open>partial_fit\<close> also sets to \<open>False\<close> and which neither
  \<^verbatim>\<open>fit\<close> nor \<^verbatim>\<open>__call__\<close> reads: every later call of the mixer returns the same from
  both states.
\<close>

theorem partial_fit_refines:
  fixes lib :: "('i::linorder, 'm) libs"
  shows "fst (partial_fit lib self a b) = fst (fit_swapped_then_prepared lib self a b)
  \<and> snd (partial_fit lib self a b) =
      (snd (fit_swapped_then_prepared lib self a b))\<lparr>hyperparam_search := Some False\<rparr>
  \<and> model (snd (partial_fit lib self a b)) = model (snd (fit lib self b a))
  \<and> train_cache (snd (partial_fit lib self a b)) = train_cache (snd (fit lib self b a))
  \<and> (fst (partial_fit lib self a b) = None \<longrightarrow> prepared (snd (partial_fit lib self a b)))
  \<and> call lib (snd (partial_fit lib self a b)) ds args =
      call lib (snd (fit_swapped_then_prepared lib self a b)) ds args"
proof -
  obtain r s1 where f: "fit lib self b a = (r, s1)" by (cases "fit lib self b a")
  have pf: "partial_fit lib self a b =
      (r, if r = None then s1\<lparr>hyperparam_search := Some False, prepared := True\<rparr>
          else s1\<lparr>hyperparam_search := Some False\<rparr>)"
    by (simp add: partial_fit_def fit_hyperparam f split: option.splits)
  have sp: "fit_swapped_then_prepared lib self a b =
      (r, if r = None then s1\<lparr>prepared := True\<rparr> else s1)"
    by (simp add: fit_swapped_then_prepared_def f split: option.splits)
  show ?thesis
    by (simp add: pf sp f call_flags)
qed

text \<open>A successful incremental re-fit on two one-row datasets: the model saw two rows.\<close>

theorem partial_fit_refines_witness:
  "fst (partial_fit example_libs (example_mixer None)
          (EncodedDs (example_table [example_row 0 1 10 ''a'']))
          (EncodedDs (example_table [example_row 1 2 20 ''a'']))) = None
   \<and> prepared (snd (partial_fit example_libs (example_mixer None)
          (EncodedDs (example_table [example_row 0 1 10 ''a'']))
          (EncodedDs (example_table [example_row 1 2 20 ''a'']))))
   \<and> model (snd (partial_fit example_libs (example_mixer None)
          (EncodedDs (example_table [example_row 0 1 10 ''a'']))
          (EncodedDs (example_table [example_row 1 2 20 ''a''])))) = Some 2"
proof -
  let ?a = "EncodedDs (example_table [example_row 0 1 10 ''a''])"
  let ?b = "EncodedDs (example_table [example_row 1 2 20 ''a''])"
  have f: "fst (fit example_libs (example_mixer None) ?b ?a) = None
         \<and> model (snd (fit example_libs (example_mixer None) ?b ?a)) = Some 2"
    by (simp add: fit_def make_initial_ds_def initial_frame_def select_columns_def
        example_table_def concat_frames_def resampled_dataset_def example_libs_def
        from_long_dataframe_def drop_duplicates_def assign_const_def Let_def
        cells_def select_row_def example_row_def)
  have n: "fst (partial_fit example_libs (example_mixer None) ?a ?b) = None"
    using f by (simp add: partial_fit_result)
  note t = partial_fit_refines [of example_libs "example_mixer None" ?a ?b]
  from t n have p: "prepared (snd (partial_fit example_libs (example_mixer None) ?a ?b))"
    by blast
  from t have "model (snd (partial_fit example_libs (example_mixer None) ?a ?b))
      = model (snd (fit example_libs (example_mixer None) ?b ?a))"
    by blast
  with f have m: "model (snd (partial_fit example_libs (example_mixer None) ?a ?b)) = Some 2"
    by simp
  from n p m show ?thesis by blast
qed

section \<open>Duplicate rows\<close>


























section \<open>The group-identifier column\<close>







section \<open>Inference calls of the Dataset Builder\<close>




section \<open>Training calls and the Series Cache\<close>





section \<open>The forecast rows\<close>

lemma predict_rows_Inr:
  "predict_rows lib self df groups conf idxs = Inr ydf \<Longrightarrow>
     length ydf = length idxs \<and>
     (\<forall>k < length idxs. predict_row lib self df groups conf (idxs ! k) = Inr (ydf ! k))"
proof (induction idxs arbitrary: ydf)
  case Nil
  then show ?case by simp
next
  case (Cons idx idxs)
  from Cons.prems obtain r rs where
    r: "predict_row lib self df groups conf idx = Inr r"
    and rs: "predict_rows lib self df groups conf idxs = Inr rs"
    and y: "ydf = r # rs"
    by (auto split: sum.splits)
  from Cons.IH [OF rs] have l: "length rs = length idxs"
    and n: "\<forall>k < length idxs. predict_row lib self df groups conf (idxs ! k) = Inr (rs ! k)"
    by simp_all
  show ?case
  proof (intro conjI allI impI)
    show "length ydf = length (idx # idxs)" using l y by simp
  next
    fix k assume "k < length (idx # idxs)"
    then show "predict_row lib self df groups conf ((idx # idxs) ! k) = Inr (ydf ! k)"
      using r n y by (cases k) simp_all
  qed
qed

lemma predict_row_Inr:
  assumes "predict_row lib self df groups conf idx = Inr r"
  shows "\<exists>m ds fc rest. model self = Some m \<and> input_ds lib self df groups idx = Inr ds
           \<and> model_predict lib m ds = Inr (fc # rest)
           \<and> r = \<lparr>prediction = mean fc, lower = quantile fc (1 - conf),
                   upper = quantile fc conf, index = fst (rows df ! idx), confidence = conf\<rparr>"
  using assms
  by (auto simp: predict_row_def split: sum.splits option.splits list.splits)

lemma call_Inr:
  assumes "call lib self ds args = Inr ydf"
  shows "\<exists>groups. call_groups self (data_frame ds) = Inr groups
           \<and> length ydf = ds_len ds \<and> ds_len ds = length (rows (data_frame ds))
           \<and> (\<forall>idx < length ydf.
                 predict_row lib self (data_frame ds) groups (conf_of args) idx = Inr (ydf ! idx))"
proof -
  from assms obtain groups where
    g: "call_groups self (data_frame ds) = Inr groups"
    and l: "ds_len ds = length (rows (data_frame ds))"
    and p: "predict_rows lib self (data_frame ds) groups (conf_of args) [0..<ds_len ds] = Inr ydf"
    by (auto simp: call_def Let_def split: if_splits sum.splits)
  from predict_rows_Inr [OF p] g l show ?thesis by auto
qed


lemma example_call:
  "call example_libs (example_trained None [example_row 0 1 10 ''a''])
     (EncodedDs (example_table [example_row 2 2 20 ''a'', example_row 3 3 30 ''a'']))
     \<lparr>fixed_confidence = fc\<rparr>
   = Inr [\<lparr>prediction = [7], lower = [1 - conf_of \<lparr>fixed_confidence = fc\<rparr>],
           upper = [conf_of \<lparr>fixed_confidence = fc\<rparr>], index = 2,
           confidence = conf_of \<lparr>fixed_confidence = fc\<rparr>\<rparr>,
          \<lparr>prediction = [7], lower = [1 - conf_of \<lparr>fixed_confidence = fc\<rparr>],
           upper = [conf_of \<lparr>fixed_confidence = fc\<rparr>], index = 3,
           confidence = conf_of \<lparr>fixed_confidence = fc\<rparr>\<rparr>]"
  by (simp add: call_def call_groups_def predict_row_def input_ds_def history_def
      iloc_upto_def run_defs)


section \<open>The history handed to the Dataset Builder\<close>




section \<open>A falsy fixed confidence\<close>

lemma call_conf:
  "conf_of args = conf_of args' \<Longrightarrow> call lib self ds args = call lib self ds args'"
  by (simp add: call_def Let_def)

text \<open>
  C10. When the arguments give the fixed confidence 0, \<^verbatim>\<open>__call__\<close> uses 0.9: it returns
  what it returns with no fixed confidence at all, and every row it returns records the
  confidence 0.9. A fixed confidence other than 0 is the one used.
\<close>

theorem falsy_confidence_defaults:
  assumes "fixed_confidence args = Some 0"
  shows "conf_of args = 9 / 10
       \<and> call lib self ds args = call lib self ds (args\<lparr>fixed_confidence := None\<rparr>)
       \<and> (\<forall>ydf. call lib self ds args = Inr ydf \<longrightarrow>
            (\<forall>idx < length ydf. confidence (ydf ! idx) = 9 / 10))
       \<and> (\<forall>c. c \<noteq> 0 \<longrightarrow> conf_of (args\<lparr>fixed_confidence := Some c\<rparr>) = c)"
proof -
  have v: "\<forall>c. c \<noteq> 0 \<longrightarrow> conf_of (args\<lparr>fixed_confidence := Some c\<rparr>) = c"
    by (simp add: conf_of_def)
  have c: "conf_of args = 9 / 10" using assms by (simp add: conf_of_def)
  have n: "conf_of (args\<lparr>fixed_confidence := None\<rparr>) = 9 / 10" by (simp add: conf_of_def)
  have e: "call lib self ds args = call lib self ds (args\<lparr>fixed_confidence := None\<rparr>)"
    by (rule call_conf) (simp add: c n)
  have r: "\<forall>ydf. call lib self ds args = Inr ydf \<longrightarrow>
            (\<forall>idx < length ydf. confidence (ydf ! idx) = 9 / 10)"
  proof (intro allI impI)
    fix ydf idx
    assume "call lib self ds args = Inr ydf" and i: "idx < length ydf"
    from call_Inr [OF this(1)] obtain groups where
      "\<forall>idx < length ydf.
         predict_row lib self (data_frame ds) groups (conf_of args) idx = Inr (ydf ! idx)"
      by blast
    with i have "predict_row lib self (data_frame ds) groups (conf_of args) idx = Inr (ydf ! idx)"
      by simp
    from predict_row_Inr [OF this] show "confidence (ydf ! idx) = 9 / 10"
      using c by force
  qed
  from c e r v show ?thesis by simp
qed

text \<open>A call with the fixed confidence 0.\<close>

theorem falsy_confidence_defaults_witness:
  "fixed_confidence \<lparr>fixed_confidence = Some 0\<rparr> = Some 0
   \<and> conf_of \<lparr>fixed_confidence = Some 0\<rparr> = 9 / 10
   \<and> call example_libs (example_trained None [example_row 0 1 10 ''a''])
       (EncodedDs (example_table [example_row 2 2 20 ''a'', example_row 3 3 30 ''a'']))
       \<lparr>fixed_confidence = Some 0\<rparr>
     = Inr [\<lparr>prediction = [7], lower = [1 / 10], upper = [9 / 10], index = 2, confidence = 9 / 10\<rparr>,
            \<lparr>prediction = [7], lower = [1 / 10], upper = [9 / 10], index = 3, confidence = 9 / 10\<rparr>]
   \<and> call example_libs (example_trained None [example_row 0 1 10 ''a''])
       (EncodedDs (example_table [example_row 2 2 20 ''a'', example_row 3 3 30 ''a'']))
       \<lparr>fixed_confidence = Some 0\<rparr>
     = call example_libs (example_trained None [example_row 0 1 10 ''a''])
       (EncodedDs (example_table [example_row 2 2 20 ''a'', example_row 3 3 30 ''a'']))
       \<lparr>fixed_confidence = None\<rparr>"
proof -
  let ?s = "example_trained None [example_row 0 1 10 ''a'']"
  let ?t = "example_table [example_row 2 2 20 ''a'', example_row 3 3 30 ''a'']"
  let ?a = "\<lparr>fixed_confidence = Some 0\<rparr>"
  have f: "fixed_confidence ?a = Some 0" by simp
  note t = falsy_confidence_defaults [OF f, of example_libs ?s "EncodedDs ?t"]
  from t have c: "conf_of ?a = 9 / 10" by blast
  from t have e: "call example_libs ?s (EncodedDs ?t) ?a
      = call example_libs ?s (EncodedDs ?t) (?a\<lparr>fixed_confidence := None\<rparr>)"
    by blast
  have u: "?a\<lparr>fixed_confidence := None\<rparr> = \<lparr>fixed_confidence = None\<rparr>" by simp
  have r: "call example_libs ?s (EncodedDs ?t) ?a =
      Inr [\<lparr>prediction = [7], lower = [1 / 10], upper = [9 / 10], index = 2, confidence = 9 / 10\<rparr>,
            \<lparr>prediction = [7], lower = [1 / 10], upper = [9 / 10], index = 3, confidence = 9 / 10\<rparr>]"
    by (simp add: example_call c)
  from f c r e u show ?thesis by simp
qed

end
